theory Spec2Isabelle
  imports Main "HOL-Library.AList"
begin

section \<open>Roster text import (parseRosterData, src/src/App.js lines 219-250)\<close>

text \<open>
  JavaScript strings are modelled as \<open>string\<close> (lists of 8-bit characters), so the text is
  taken to be ASCII. \<open>String.prototype.trim\<close> and the regular-expression class \<open>\s\<close>
  remove white space; of JavaScript's white-space characters the ASCII ones are space, tab,
  line feed, vertical tab, form feed and carriage return.
\<close>

definition is_space :: "char \<Rightarrow> bool" where
  "is_space c \<longleftrightarrow>
     c = CHR '' '' \<or> c = CHR 0x09 \<or> c = CHR 0x0A \<or> c = CHR 0x0B \<or> c = CHR 0x0C \<or> c = CHR 0x0D"

definition is_digit :: "char \<Rightarrow> bool" where
  "is_digit c \<longleftrightarrow> c \<in> set ''0123456789''"

definition trim :: "string \<Rightarrow> string" where
  "trim s = rev (dropWhile is_space (rev (dropWhile is_space s)))"

text \<open>
  \<open>s.split(sep)\<close> for a one-character separator: the pieces between the separators, in
  order; the empty string gives one empty piece.
\<close>

fun split :: "char \<Rightarrow> string \<Rightarrow> string list" where
  "split sep [] = [[]]"
| "split sep (c # cs) =
     (if c = sep then [] # split sep cs
      else (case split sep cs of
              p # ps \<Rightarrow> (c # p) # ps
            | [] \<Rightarrow> [[c]]))"

text \<open>
  \<^verbatim>\<open>while (parts.length > 2 && parts[parts.length - 1] === '') parts.pop();\<close>
\<close>

function pop_trailing :: "string list \<Rightarrow> string list" where
  "pop_trailing parts =
     (if length parts > 2 \<and> last parts = [] then pop_trailing (butlast parts) else parts)"
  by pat_completeness auto
termination
  by (relation "measure length") auto

text \<open>
  \<^verbatim>\<open>name.replace(/^(\d+\.?\s?)/, '')\<close>: when the name starts with a digit, the longest run
  of digits is removed, then one full stop if it follows, then one white-space character if it
  follows. Every part after \<open>\d+\<close> is optional, so the greedy match never backtracks.
\<close>

definition strip_leading_number :: "string \<Rightarrow> string" where
  "strip_leading_number s =
     (case s of
        [] \<Rightarrow> []
      | c # _ \<Rightarrow>
          if is_digit c then
            (let r1 = dropWhile is_digit s;
                 r2 = (case r1 of [] \<Rightarrow> [] | d # r \<Rightarrow> if d = CHR ''.'' then r else r1);
                 r3 = (case r2 of [] \<Rightarrow> [] | d # r \<Rightarrow> if is_space d then r else r2)
             in r3)
          else s)"

record entry =
  entry_id :: string
  entry_name :: string

record parse_result =
  rosterData :: "entry list"
  errorCount :: nat

text \<open>The body of the \<open>for (const line of lines)\<close> loop, on the two accumulators.\<close>

definition parse_line :: "string \<Rightarrow> parse_result \<Rightarrow> parse_result" where
  "parse_line line acc =
     (let parts = pop_trailing (map trim (split (CHR '','') line)) in
      if length parts \<ge> 2 \<and> parts ! 0 \<noteq> [] \<and> parts ! 1 \<noteq> [] then
        acc\<lparr>rosterData := rosterData acc @
              [\<lparr>entry_id = parts ! 0, entry_name = trim (strip_leading_number (parts ! 1))\<rparr>]\<rparr>
      else if trim line \<noteq> [] then acc\<lparr>errorCount := errorCount acc + 1\<rparr>
      else acc)"

definition parseRosterData :: "string \<Rightarrow> parse_result" where
  "parseRosterData text =
     fold parse_line (split (CHR 0x0A) (trim text)) \<lparr>rosterData = [], errorCount = 0\<rparr>"


section \<open>Retry with exponential backoff (retryOperation, lines 142-160)\<close>

datatype error = FirestoreError (code: string)

text \<open>
  An operation is a call with effects on some state \<open>'s\<close>: it returns the value it resolves
  with (\<open>Inr\<close>) or the error it rejects with (\<open>Inl\<close>), and the state after the call.
  \<open>retry_from\<close> is the \<open>for\<close> loop from index \<open>i\<close>; it returns the outcome, the delays it
  waited for (in milliseconds, in order) and the final state. When the loop ends without a
  \<open>return\<close> (only for \<open>maxRetries = 0\<close>) the JavaScript function resolves with
  \<open>undefined\<close>, which is \<open>Inr None\<close>.
\<close>

function retry_from ::
  "('s \<Rightarrow> (error + 'a) \<times> 's) \<Rightarrow> nat \<Rightarrow> int \<Rightarrow> nat \<Rightarrow> 's \<Rightarrow> (error + 'a option) \<times> int list \<times> 's"
where
  "retry_from operation maxRetries delay i s =
     (if i < maxRetries then
        (case operation s of
           (Inr v, s1) \<Rightarrow> (Inr (Some v), [], s1)
         | (Inl e, s1) \<Rightarrow>
             if code e = ''permission-denied'' \<or> code e = ''unavailable'' \<or> i + 1 = maxRetries then
               if i + 1 = maxRetries then (Inl e, [], s1)
               else (case retry_from operation maxRetries delay (i + 1) s1 of
                       (r, waits, s2) \<Rightarrow> (r, delay * 2 ^ i # waits, s2))
             else (Inl e, [], s1))
      else (Inr None, [], s))"
  by pat_completeness auto
termination
  by (relation "measure (\<lambda>(operation, maxRetries, delay, i, s). maxRetries - i)") auto

definition retryOperation ::
  "('s \<Rightarrow> (error + 'a) \<times> 's) \<Rightarrow> nat \<Rightarrow> int \<Rightarrow> 's \<Rightarrow> (error + 'a option) \<times> int list \<times> 's"
where
  "retryOperation operation maxRetries delay s = retry_from operation maxRetries delay 0 s"

definition transient :: "error \<Rightarrow> bool" where
  "transient e \<longleftrightarrow> code e = ''permission-denied'' \<or> code e = ''unavailable''"


section \<open>The remote roster collection\<close>

text \<open>
  A JavaScript object literal, and a Firestore document's data, is an association list from
  field names to values, in insertion order. \<open>ServerTimestamp\<close> is the sentinel returned by
  \<open>serverTimestamp()\<close>; the store replaces it by its own time when it applies a write.
\<close>

datatype fval = Str string | Null | Time int | ServerTimestamp

type_synonym fields = "(string \<times> fval) list"

datatype call = GetDocs | SetDoc string fields bool | DeleteDoc string

text \<open>
  Modelled from the spec: the cloud document collection API (section 6: \<open>get-all\<close>,
  \<open>create-or-replace\<close> with a merge flag, \<open>delete\<close>, a server timestamp) is the Firestore
  library, which is not part of the repository. \<open>docs\<close> is the roster collection, keyed by
  document id; \<open>serverTime\<close> is the time the store stamps writes with; \<open>calls\<close> records every
  remote call issued, in order; \<open>faults\<close> scripts the outcome of the coming remote calls, one
  entry per call (\<open>Some e\<close>: the call rejects with \<open>e\<close> and changes nothing; \<open>None\<close>, or an
  exhausted script: the call succeeds); \<open>waited\<close> collects the backoff delays the handlers
  have slept for.
\<close>

record world =
  docs :: "(string \<times> fields) list"
  serverTime :: int
  faults :: "error option list"
  calls :: "call list"
  waited :: "int list"

definition issue :: "call \<Rightarrow> world \<Rightarrow> error option \<times> world" where
  "issue c w =
     (case faults w of
        [] \<Rightarrow> (None, w\<lparr>calls := calls w @ [c]\<rparr>)
      | f # fs \<Rightarrow> (f, w\<lparr>calls := calls w @ [c], faults := fs\<rparr>))"

definition resolve :: "int \<Rightarrow> fields \<Rightarrow> fields" where
  "resolve t data = map (\<lambda>(k, v). (k, if v = ServerTimestamp then Time t else v)) data"

definition merge_fields :: "fields \<Rightarrow> fields \<Rightarrow> fields" where
  "merge_fields old new = fold (\<lambda>(k, v). AList.update k v) new old"

definition write_doc :: "string \<Rightarrow> fields \<Rightarrow> bool \<Rightarrow> (string \<times> fields) list \<Rightarrow> (string \<times> fields) list" where
  "write_doc docId data merge ds =
     (case map_of ds docId of
        Some old \<Rightarrow> AList.update docId (if merge then merge_fields old data else data) ds
      | None \<Rightarrow> AList.update docId data ds)"

definition setDoc :: "string \<Rightarrow> fields \<Rightarrow> bool \<Rightarrow> world \<Rightarrow> (error + unit) \<times> world" where
  "setDoc docId data merge w =
     (case issue (SetDoc docId data merge) w of
        (Some e, w1) \<Rightarrow> (Inl e, w1)
      | (None, w1) \<Rightarrow>
          (Inr (), w1\<lparr>docs := write_doc docId (resolve (serverTime w1) data) merge (docs w1)\<rparr>))"

definition deleteDoc :: "string \<Rightarrow> world \<Rightarrow> (error + unit) \<times> world" where
  "deleteDoc docId w =
     (case issue (DeleteDoc docId) w of
        (Some e, w1) \<Rightarrow> (Inl e, w1)
      | (None, w1) \<Rightarrow> (Inr (), w1\<lparr>docs := AList.delete docId (docs w1)\<rparr>))"

definition getDocs :: "world \<Rightarrow> (error + (string \<times> fields) list) \<times> world" where
  "getDocs w =
     (case issue GetDocs w of
        (Some e, w1) \<Rightarrow> (Inl e, w1)
      | (None, w1) \<Rightarrow> (Inr (docs w1), w1))"

text \<open>
  Modelled from the spec: \<open>doc(db, path, id)\<close> belongs to the Firestore library, which is
  not part of the repository; the spec only says that a document is addressed by its
  collection and id. The library joins the path of the roster collection (five segments) and
  the id, drops empty segments, and throws \<open>invalid-argument\<close> when the id contains \<open>//\<close>
  or when the joined path has an odd number of segments, that is unless the id has an odd
  number of non-empty segments. An id read from the store is a single segment. An id of three
  or more segments names a document further down; the model files it in the one collection
  under its whole id.
\<close>

fun double_slash :: "string \<Rightarrow> bool" where
  "double_slash (a # b # cs) = ((a = CHR ''/'' \<and> b = CHR ''/'') \<or> double_slash (b # cs))"
| "double_slash _ = False"

definition doc_path_ok :: "string \<Rightarrow> bool" where
  "doc_path_ok docId \<longleftrightarrow>
     \<not> double_slash docId \<and> odd (length (filter (\<lambda>seg. seg \<noteq> []) (split (CHR ''/'') docId)))"

text \<open>
  \<open>xs.map(x => call(x))\<close> issues every call at once and keeps the promises; \<open>issue_all\<close>
  runs the calls in list order and keeps their outcomes. \<open>Promise.all\<close> over promises that
  are already settled resolves with all the values or rejects with a rejection among them (the
  first in list order here), every time it is asked.
\<close>

fun issue_all :: "(world \<Rightarrow> (error + 'a) \<times> world) list \<Rightarrow> world \<Rightarrow> (error + 'a) list \<times> world" where
  "issue_all [] w = ([], w)"
| "issue_all (f # fs) w =
     (case f w of (r, w1) \<Rightarrow> (case issue_all fs w1 of (rs, w2) \<Rightarrow> (r # rs, w2)))"

fun promise_all :: "(error + 'a) list \<Rightarrow> error + 'a list" where
  "promise_all [] = Inr []"
| "promise_all (Inl e # rs) = Inl e"
| "promise_all (Inr v # rs) = (case promise_all rs of Inl e \<Rightarrow> Inl e | Inr vs \<Rightarrow> Inr (v # vs))"


section \<open>The App component: roster mirror and attendance toggles (lines 1062-1191)\<close>

record message =
  msg_text :: string
  msg_type :: string

text \<open>
  \<open>db\<close> tells whether the Firestore handle of \<open>useFirebaseAuth\<close> is set; \<open>roster\<close> is the
  local snapshot; \<open>console\<close> holds the level and text of the listener's console output (the
  only effect of the listener's error callback). Timers that clear a message after five
  seconds are separate events and are left out.
\<close>

record app =
  db :: bool
  roster :: "fields list"
  scanMessage :: message
  console :: "(string \<times> string) list"

text \<open>A field inside a template literal.\<close>

definition interpolate :: "fields \<Rightarrow> string \<Rightarrow> string" where
  "interpolate obj k =
     (case map_of obj k of
        None \<Rightarrow> ''undefined''
      | Some (Str s) \<Rightarrow> s
      | Some Null \<Rightarrow> ''null''
      | Some _ \<Rightarrow> ''[object Object]'')"

fun string_of_nat :: "nat \<Rightarrow> string" where
  "string_of_nat n =
     (if n < 10 then [''0123456789'' ! n]
      else string_of_nat (n div 10) @ [''0123456789'' ! (n mod 10)])"

text \<open>The success callback of \<open>onSnapshot\<close> (lines 1081-1088), given the documents delivered.\<close>

definition onSnapshot_next :: "(string \<times> fields) list \<Rightarrow> app \<Rightarrow> app" where
  "onSnapshot_next snapshot a =
     (let updatedRoster = map (\<lambda>(docId, data). AList.update ''id'' (Str docId) data) snapshot in
      a\<lparr>roster := updatedRoster,
        console := console a @
          [(''log'', ''Roster updated: '' @ string_of_nat (length updatedRoster) @ '' records.'')]\<rparr>)"

text \<open>The error callback of \<open>onSnapshot\<close> (lines 1088-1096).\<close>

definition onSnapshot_error :: "error \<Rightarrow> app \<Rightarrow> app" where
  "onSnapshot_error e a =
     (if code e \<noteq> ''permission-denied'' then
        a\<lparr>console := console a @ [(''error'', ''Firestore Listener Error:'')]\<rparr>
      else
        a\<lparr>console := console a @
          [(''warn'', ''Firestore Listener hit transient permission error. Waiting for auth resolution.'')]\<rparr>)"

definition toggled :: "fields \<Rightarrow> string" where
  "toggled person = (if map_of person ''status'' = Some (Str ''present'') then ''absent'' else ''present'')"

definition messageAction :: "string \<Rightarrow> string" where
  "messageAction newStatus = (if newStatus = ''present'' then ''PRESENT'' else ''ABSENT'')"

definition handleScanSuccess :: "string \<Rightarrow> app \<Rightarrow> world \<Rightarrow> app \<times> world" where
  "handleScanSuccess scannedId a w =
     (if \<not> db a then
        (a\<lparr>scanMessage := \<lparr>msg_text = ''Database not ready.'', msg_type = ''error''\<rparr>\<rparr>, w)
      else
        (case find (\<lambda>p. map_of p ''id'' = Some (Str scannedId)) (roster a) of
           None \<Rightarrow>
             (a\<lparr>scanMessage :=
                 \<lparr>msg_text = ''Error: QR Code ID '' @ [CHR 0x22] @ scannedId @ [CHR 0x22] @
                              '' does not match any attendee.'',
                  msg_type = ''error''\<rparr>\<rparr>, w)
         | Some person \<Rightarrow>
             (let newStatus = toggled person in
              case retryOperation
                     (setDoc scannedId [(''status'', Str newStatus), (''lastScan'', ServerTimestamp)] True)
                     3 500 w of
                (Inr _, waits, w1) \<Rightarrow>
                  (a\<lparr>scanMessage :=
                      \<lparr>msg_text = ''Success! '' @ interpolate person ''name'' @ '' is now marked as '' @
                                   messageAction newStatus @ ''.'',
                       msg_type = ''success''\<rparr>\<rparr>,
                   w1\<lparr>waited := waited w1 @ waits\<rparr>)
              | (Inl e, waits, w1) \<Rightarrow>
                  (a\<lparr>scanMessage :=
                      \<lparr>msg_text = ''Failed to update attendance for '' @ interpolate person ''name'' @ ''.'',
                       msg_type = ''error''\<rparr>\<rparr>,
                   w1\<lparr>waited := waited w1 @ waits\<rparr>))))"

text \<open>
  \<open>handleManualStatusToggle\<close> receives the roster entry of the row that was clicked. An entry
  of the snapshot always carries its document id as a string in \<open>id\<close>; for any other object
  \<open>doc(db, path, person.id)\<close> throws before the \<open>try\<close> block and nothing happens.
\<close>

definition handleManualStatusToggle :: "fields \<Rightarrow> app \<Rightarrow> world \<Rightarrow> app \<times> world" where
  "handleManualStatusToggle person a w =
     (if \<not> db a then (a, w)
      else
        (case map_of person ''id'' of
           Some (Str personId) \<Rightarrow>
             (let newStatus = toggled person in
              case retryOperation
                     (setDoc personId [(''status'', Str newStatus), (''lastScan'', ServerTimestamp)] True)
                     3 500 w of
                (Inr _, waits, w1) \<Rightarrow>
                  (a\<lparr>scanMessage :=
                      \<lparr>msg_text = ''Manual update: '' @ interpolate person ''name'' @ '' toggled to '' @
                                   messageAction newStatus @ ''.'',
                       msg_type = ''warning''\<rparr>\<rparr>,
                   w1\<lparr>waited := waited w1 @ waits\<rparr>)
              | (Inl e, waits, w1) \<Rightarrow>
                  (a\<lparr>scanMessage :=
                      \<lparr>msg_text = ''Failed to update attendance manually for '' @
                                   interpolate person ''name'' @ ''.'',
                       msg_type = ''error''\<rparr>\<rparr>,
                   w1\<lparr>waited := waited w1 @ waits\<rparr>))
         | _ \<Rightarrow> (a, w)))"


section \<open>Bulk roster replacement (executeRosterUpload, lines 252-296)\<close>

record display =
  uploadMessage :: string
  newRosterText :: string

definition new_doc :: "entry \<Rightarrow> fields" where
  "new_doc person =
     [(''id'', Str (entry_id person)), (''name'', Str (entry_name person)),
      (''status'', Str ''absent''), (''lastScan'', Null), (''createdAt'', ServerTimestamp)]"

text \<open>
  The remote work of the \<open>try\<close> block. \<open>batchDelete\<close> and \<open>batchUpload\<close> are arrays of
  promises: \<open>map\<close> has already issued every \<open>deleteDoc\<close> or \<open>setDoc\<close> when
  \<open>retryOperation\<close> is called, and the operation handed to \<open>retryOperation\<close> is
  \<open>() => Promise.all(batch)\<close>, which issues nothing and leaves the state as it is.
  Inside the second \<open>map\<close>, \<open>doc(db, path, person.id)\<close> throws at the first entry whose id
  the library refuses: the \<open>setDoc\<close> calls of the entries before it have been issued, and
  the exception leaves the \<open>try\<close> block.
\<close>

definition upload_steps :: "entry list \<Rightarrow> world \<Rightarrow> (error + unit) \<times> world" where
  "upload_steps dataToUpload w =
     (case getDocs w of
        (Inl e, w1) \<Rightarrow> (Inl e, w1)
      | (Inr existing, w1) \<Rightarrow>
          (case issue_all (map (\<lambda>d. deleteDoc (fst d)) existing) w1 of
             (batchDelete, w2) \<Rightarrow>
               (case retryOperation (\<lambda>s. (promise_all batchDelete, s)) 3 500 w2 of
                  (Inl e, waits, w3) \<Rightarrow> (Inl e, w3\<lparr>waited := waited w3 @ waits\<rparr>)
                | (Inr _, waits, w3) \<Rightarrow>
                    (case issue_all
                            (map (\<lambda>person. setDoc (entry_id person) (new_doc person) False)
                               (takeWhile (\<lambda>person. doc_path_ok (entry_id person)) dataToUpload))
                            (w3\<lparr>waited := waited w3 @ waits\<rparr>) of
                       (batchUpload, w4) \<Rightarrow>
                         if \<exists>person \<in> set dataToUpload. \<not> doc_path_ok (entry_id person) then
                           (Inl (FirestoreError ''invalid-argument''), w4)
                         else
                           (case retryOperation (\<lambda>s. (promise_all batchUpload, s)) 3 500 w4 of
                              (Inl e, waits', w5) \<Rightarrow> (Inl e, w5\<lparr>waited := waited w5 @ waits'\<rparr>)
                            | (Inr _, waits', w5) \<Rightarrow> (Inr (), w5\<lparr>waited := waited w5 @ waits'\<rparr>))))))"

text \<open>
  \<open>isConfirmed\<close> is the answer of \<open>window.confirm\<close>; the component reads \<open>db\<close> from the
  props the App passes down. The message \<open>Processing...\<close> shown while the \<open>try\<close> block
  runs is overwritten on both of its exits and is left out, as is the reset of the file input.
\<close>

definition executeRosterUpload ::
  "entry list \<Rightarrow> nat \<Rightarrow> bool \<Rightarrow> app \<Rightarrow> display \<Rightarrow> world \<Rightarrow> display \<times> world"
where
  "executeRosterUpload dataToUpload errCount isConfirmed a d w =
     (if \<not> db a then (d, w)
      else if length dataToUpload = 0 then
        (d\<lparr>uploadMessage := ''Error: No valid entries found. Format: ID, Name (one per line).''\<rparr>, w)
      else if \<not> isConfirmed then (d, w)
      else
        (case upload_steps dataToUpload w of
           (Inr _, w1) \<Rightarrow>
             (d\<lparr>uploadMessage :=
                  ''Successfully uploaded '' @ string_of_nat (length dataToUpload) @ '' members. '' @
                  string_of_nat errCount @ '' invalid lines skipped.'',
                newRosterText := []\<rparr>, w1)
         | (Inl e, w1) \<Rightarrow>
             (d\<lparr>uploadMessage := ''Critical Error during upload. Check console for details.''\<rparr>, w1)))"


section \<open>The scanner view (EnhancedScannerView, lines 499-723)\<close>

record scanner_state =
  isInitializing :: bool
  isRunning :: bool
  isPaused :: bool
  hasPermission :: "bool option"
  error :: "string option"
  lastScanTime :: "int option"
  scanCount :: nat
  flashOn :: bool

text \<open>
  The decode callback (lines 620-648). It is created in a render of the component and reaches
  the library as an argument of \<open>start()\<close> (lines 650-654). The \<open>scannerState\<close> it reads
  in line 622 is the constant of that render (line 504), here \<open>seen\<close>;
  \<open>setScannerState\<close> (line 627) does not change that constant: it updates the current state
  of the component, here \<open>prev\<close>, for the renders to come. The result is the new current
  state and the text handed to \<open>handleScanSuccess\<close>, if any, at \<open>Date.now() = now\<close>. A
  \<open>lastScanTime\<close> of \<open>null\<close> or \<open>0\<close> is falsy. The timer that resumes the scanner three
  seconds later is a separate event.
\<close>

definition onScanSuccess ::
  "scanner_state \<Rightarrow> int \<Rightarrow> string \<Rightarrow> scanner_state \<Rightarrow> scanner_state \<times> string option"
where
  "onScanSuccess seen now decodedText prev =
     (if (case lastScanTime seen of None \<Rightarrow> False | Some t \<Rightarrow> t \<noteq> 0 \<and> now - t < 2000) then (prev, None)
      else (prev\<lparr>lastScanTime := Some now, scanCount := scanCount prev + 1, isPaused := True\<rparr>,
            Some decodedText))"

text \<open>
  A callback registered with the library: the scanner state of the render that created it, and
  the App state whose \<open>db\<close> and \<open>roster\<close> the \<open>handleScanSuccess\<close> it was given closed
  over (line 1155).
\<close>

record registration =
  seen_scanner :: scanner_state
  seen_app :: app

text \<open>
  A decode event delivered to a registered callback, seen from the whole application: the
  callback, then the App's handler. The handler reads the \<open>db\<close> and \<open>roster\<close> it closed
  over; \<open>setScanMessage\<close>, which it calls on every path, acts on the current App state.
\<close>

definition decode_event ::
  "registration \<Rightarrow> int \<Rightarrow> string \<Rightarrow> scanner_state \<times> app \<times> world \<Rightarrow> scanner_state \<times> app \<times> world"
where
  "decode_event reg now decodedText st =
     (case st of (ss, a, w) \<Rightarrow>
        (case onScanSuccess (seen_scanner reg) now decodedText ss of
           (ss1, None) \<Rightarrow> (ss1, a, w)
         | (ss1, Some scannedId) \<Rightarrow>
             (case handleScanSuccess scannedId (seen_app reg) w of
                (a1, w1) \<Rightarrow> (ss1, a\<lparr>scanMessage := scanMessage a1\<rparr>, w1))))"

text \<open>
  Modelled from the spec: the camera and decode library (section 6: start and stop of the
  continuous decode) is loaded from a CDN and is not part of the repository. An instance is
  reduced to its \<open>isScanning\<close> flag: the decode loop of the instance runs exactly while the
  flag is set; \<open>start()\<close> sets it when it resolves, \<open>stop()\<close> clears it when it resolves.

  \<open>html5QrCodeRef\<close> is \<open>html5QrCodeRef.current\<close>; \<open>starting\<close> is the instance that
  \<open>initializeScanner\<close> has created and whose \<open>start()\<close> it is awaiting (its local
  \<open>html5Qrcode\<close>), if any.
\<close>

record qr_instance =
  isScanning :: bool

record scanner =
  scannerState :: scanner_state
  html5QrCodeRef :: "qr_instance option"
  starting :: "qr_instance option"

text \<open>
  \<open>stopScanner\<close> (lines 535-551); \<open>stopResult\<close> is the error \<open>stop()\<close> rejects with, if it
  does (the \<open>catch\<close> only logs it).
\<close>

definition stopScanner :: "error option \<Rightarrow> scanner \<Rightarrow> scanner" where
  "stopScanner stopResult sc =
     (case html5QrCodeRef sc of
        None \<Rightarrow> sc
      | Some inst \<Rightarrow>
          if isRunning (scannerState sc) then
            if isScanning inst then
              (case stopResult of
                 None \<Rightarrow>
                   sc\<lparr>html5QrCodeRef := Some (inst\<lparr>isScanning := False\<rparr>),
                      scannerState := (scannerState sc)
                        \<lparr>isInitializing := False, isRunning := False, isPaused := False, flashOn := False\<rparr>\<rparr>
               | Some e \<Rightarrow> sc)
            else sc
          else sc)"

text \<open>
  \<open>initializeScanner\<close> (lines 591-702) up to its \<open>await html5Qrcode.start(...)\<close>, for a
  camera id that is known, and its continuation when \<open>start()\<close> resolves (lines 672-680).
\<close>

definition initializeScanner_begin :: "error option \<Rightarrow> scanner \<Rightarrow> scanner" where
  "initializeScanner_begin stopResult sc =
     (let sc1 = stopScanner stopResult sc in
      sc1\<lparr>scannerState := (scannerState sc1)\<lparr>isInitializing := True, error := None, isRunning := False\<rparr>,
          starting := Some \<lparr>isScanning = False\<rparr>\<rparr>)"

definition start_resolved :: "scanner \<Rightarrow> scanner" where
  "start_resolved sc =
     (case starting sc of
        None \<Rightarrow> sc
      | Some inst \<Rightarrow>
          sc\<lparr>html5QrCodeRef := Some (inst\<lparr>isScanning := True\<rparr>),
             starting := None,
             scannerState := (scannerState sc)
               \<lparr>isInitializing := False, isRunning := True, hasPermission := Some True, error := None\<rparr>\<rparr>)"

text \<open>The cleanup of the mount effect (lines 717-722); the retry timer it clears is left out.\<close>

definition unmount :: "error option \<Rightarrow> scanner \<Rightarrow> scanner" where
  "unmount stopResult sc = stopScanner stopResult sc"

definition decode_loop_running :: "scanner \<Rightarrow> bool" where
  "decode_loop_running sc \<longleftrightarrow>
     (case html5QrCodeRef sc of None \<Rightarrow> False | Some inst \<Rightarrow> isScanning inst)
     \<or> (case starting sc of None \<Rightarrow> False | Some inst \<Rightarrow> isScanning inst)"


section \<open>Derived notions used to state the properties\<close>

text \<open>
  The two entry points of a status flip. A manual toggle is the click handler of a roster row
  (line 458), which hands the roster entry of that row to \<open>handleManualStatusToggle\<close>.
\<close>

datatype entry_point = Scan | Manual

definition toggle_via :: "entry_point \<Rightarrow> string \<Rightarrow> app \<Rightarrow> world \<Rightarrow> app \<times> world" where
  "toggle_via ep attendeeId a w =
     (case ep of
        Scan \<Rightarrow> handleScanSuccess attendeeId a w
      | Manual \<Rightarrow>
          (case find (\<lambda>p. map_of p ''id'' = Some (Str attendeeId)) (roster a) of
             None \<Rightarrow> (a, w)
           | Some person \<Rightarrow> handleManualStatusToggle person a w))"

definition doc_field :: "world \<Rightarrow> string \<Rightarrow> string \<Rightarrow> fval option" where
  "doc_field w docId k = (case map_of (docs w) docId of None \<Rightarrow> None | Some d \<Rightarrow> map_of d k)"

text \<open>The order of \<open>lastScan\<close> values: \<open>null\<close> comes before every time stamp.\<close>

fun lastScan_before :: "fval option \<Rightarrow> fval option \<Rightarrow> bool" where
  "lastScan_before (Some (Time t)) (Some (Time u)) = (t < u)"
| "lastScan_before (Some Null) (Some (Time u)) = True"
| "lastScan_before _ _ = False"

text \<open>\<open>handleTextUpload\<close> (lines 298-301).\<close>

definition handleTextUpload :: "bool \<Rightarrow> app \<Rightarrow> display \<Rightarrow> world \<Rightarrow> display \<times> world" where
  "handleTextUpload isConfirmed a d w =
     (let r = parseRosterData (newRosterText d) in
      executeRosterUpload (rosterData r) (errorCount r) isConfirmed a d w)"

text \<open>
  A run of decode events (time of the event, decoded text) through one registered callback:
  the final scanner state and the texts handed to \<open>handleScanSuccess\<close>, in order.
\<close>

fun run_decodes ::
  "scanner_state \<Rightarrow> (int \<times> string) list \<Rightarrow> scanner_state \<Rightarrow> scanner_state \<times> string list"
where
  "run_decodes seen [] ss = (ss, [])"
| "run_decodes seen ((now, decodedText) # evs) ss =
     (case onScanSuccess seen now decodedText ss of
        (ss1, r) \<Rightarrow>
          (case run_decodes seen evs ss1 of
             (ss2, accepted) \<Rightarrow>
               (ss2, (case r of None \<Rightarrow> [] | Some scannedId \<Rightarrow> [scannedId]) @ accepted)))"

text \<open>The initial state of the scanner view (lines 504-513) with no library instance yet.\<close>

definition initial_scanner_state :: scanner_state where
  "initial_scanner_state =
     \<lparr>isInitializing = True, isRunning = False, isPaused = False, hasPermission = None,
      error = None, lastScanTime = None, scanCount = 0, flashOn = False\<rparr>"

definition initial_scanner :: scanner where
  "initial_scanner = \<lparr>scannerState = initial_scanner_state, html5QrCodeRef = None, starting = None\<rparr>"

text \<open>
  Concrete states on which the handlers are evaluated: a roster of two attendees, mirrored in
  the local snapshot, with the store's clock at 1000; an import form; and an operation on a
  call counter that rejects with \<open>unavailable\<close> on its first two calls.
\<close>

definition sample_docs :: "(string \<times> fields) list" where
  "sample_docs =
     [(''RC-1001'', [(''id'', Str ''RC-1001''), (''name'', Str ''Alfie Johnson''),
                     (''status'', Str ''absent''), (''lastScan'', Null), (''createdAt'', Time 100)]),
      (''RC-1002'', [(''id'', Str ''RC-1002''), (''name'', Str ''Brenda Chen''),
                     (''status'', Str ''present''), (''lastScan'', Time 900), (''createdAt'', Time 100)])]"

definition sample_app :: app where
  "sample_app =
     \<lparr>db = True, roster = map snd sample_docs,
      scanMessage = \<lparr>msg_text = [], msg_type = ''info''\<rparr>, console = []\<rparr>"

definition sample_world :: world where
  "sample_world = \<lparr>docs = sample_docs, serverTime = 1000, faults = [], calls = [], waited = []\<rparr>"

definition sample_display :: display where
  "sample_display = \<lparr>uploadMessage = [], newRosterText = ''RC-2001,1.Dean Owens''\<rparr>"

text \<open>The callback registered on first mount, over the initial scanner state.\<close>

definition sample_registration :: registration where
  "sample_registration = \<lparr>seen_scanner = initial_scanner_state, seen_app = sample_app\<rparr>"

definition flaky :: "nat \<Rightarrow> (error + string) \<times> nat" where
  "flaky n = (if n < 2 then Inl (FirestoreError ''unavailable'') else Inr ''written'', n + 1)"


section \<open>Properties\<close>

declare retry_from.simps [simp del]
declare pop_trailing.simps [simp del]

text \<open>
  Claim C8. The import text with the three lines \<open>RC-1001,Alfie Johnson\<close>, \<open>,,\<close> and
  \<open>RC-1002,Jane Smith,,\<close> parses to exactly two entries and one counted error; the surplus
  empty fields of the third line are popped; and the name \<open>1.Dean Owens\<close> is stored as
  \<open>Dean Owens\<close>.
\<close>

theorem parseRosterData_example:
  "parseRosterData (''RC-1001,Alfie Johnson'' @ [CHR 0x0A] @ '',,'' @ [CHR 0x0A] @ ''RC-1002,Jane Smith,,'')
     = \<lparr>rosterData = [\<lparr>entry_id = ''RC-1001'', entry_name = ''Alfie Johnson''\<rparr>,
                      \<lparr>entry_id = ''RC-1002'', entry_name = ''Jane Smith''\<rparr>],
        errorCount = 1\<rparr>
   \<and> pop_trailing (map trim (split (CHR '','') ''RC-1002,Jane Smith,,'')) = [''RC-1002'', ''Jane Smith'']
   \<and> trim (strip_leading_number ''1.Dean Owens'') = ''Dean Owens''
   \<and> rosterData (parseRosterData ''RC-1006,1.Dean Owens'')
     = [\<lparr>entry_id = ''RC-1006'', entry_name = ''Dean Owens''\<rparr>]"
  by code_simp



subsection \<open>retryOperation\<close>

lemma retry_from_resolves:
  "i < maxRetries \<Longrightarrow> operation s = (Inr v, s1) \<Longrightarrow>
   retry_from operation maxRetries delay i s = (Inr (Some v), [], s1)"
  by (subst retry_from.simps) simp

lemma retry_from_backs_off:
  "i + 1 < maxRetries \<Longrightarrow> operation s = (Inl e, s1) \<Longrightarrow> transient e \<Longrightarrow>
   retry_from operation maxRetries delay i s =
     (case retry_from operation maxRetries delay (i + 1) s1 of
        (r, waits, s2) \<Rightarrow> (r, delay * 2 ^ i # waits, s2))"
  by (subst retry_from.simps) (auto simp: transient_def)

text \<open>
  Claim C3. An operation that rejects with a transient error (\<open>permission-denied\<close> or
  \<open>unavailable\<close>) on its first two calls and resolves on the third makes \<open>retryOperation\<close>
  resolve with the third call's value, after waiting \<open>baseDelay\<close> and then
  \<open>baseDelay * 2\<close> and nothing else, whenever there are at least three attempts (the
  default is five, every call site passes three).
\<close>

theorem retry_succeeds_on_third:
  assumes "3 \<le> maxRetries"
    and "operation s0 = (Inl e1, s1)" and "transient e1"
    and "operation s1 = (Inl e2, s2)" and "transient e2"
    and "operation s2 = (Inr v, s3)"
  shows "retryOperation operation maxRetries baseDelay s0
           = (Inr (Some v), [baseDelay, baseDelay * 2], s3)"
proof -
  have third: "retry_from operation maxRetries baseDelay 2 s2 = (Inr (Some v), [], s3)"
    using assms(1,6) by (intro retry_from_resolves) auto
  have second: "retry_from operation maxRetries baseDelay 1 s1 = (Inr (Some v), [baseDelay * 2], s3)"
    using retry_from_backs_off [of 1 maxRetries operation s1 e2 s2 baseDelay] assms(1,4,5) third
    by (simp add: numeral_2_eq_2)
  show ?thesis
    unfolding retryOperation_def
    using retry_from_backs_off [of 0 maxRetries operation s0 e1 s1 baseDelay] assms(1,2,3) second
    by simp
qed

theorem retry_succeeds_on_third_witness:
  "flaky 0 = (Inl (FirestoreError ''unavailable''), 1)
   \<and> flaky 1 = (Inl (FirestoreError ''unavailable''), 2)
   \<and> flaky 2 = (Inr ''written'', 3)
   \<and> transient (FirestoreError ''unavailable'')
   \<and> retryOperation flaky 3 500 0 = (Inr (Some ''written''), [500, 1000], 3)"
  using retry_succeeds_on_third
          [of 3 flaky 0 "FirestoreError ''unavailable''" 1 "FirestoreError ''unavailable''" 2
              "''written''" 3 500]
  by (simp add: flaky_def transient_def)


subsection \<open>The roster mirror\<close>

text \<open>
  Claim C4. The error callback of the roster subscription leaves the local snapshot as it is,
  for every error and so for \<open>permission-denied\<close>; neither toggle handler writes the snapshot;
  the success callback replaces it by the documents delivered.
\<close>

theorem listener_error_keeps_roster:
  "roster (onSnapshot_error e a) = roster a
   \<and> roster (onSnapshot_error (FirestoreError ''permission-denied'') a) = roster a
   \<and> roster (fst (handleScanSuccess scannedId a w)) = roster a
   \<and> roster (fst (handleManualStatusToggle person a w)) = roster a
   \<and> roster (onSnapshot_next snapshot a)
       = map (\<lambda>(docId, data). AList.update ''id'' (Str docId) data) snapshot"
  by (auto simp: onSnapshot_error_def onSnapshot_next_def handleScanSuccess_def
                 handleManualStatusToggle_def Let_def
           split: option.splits prod.splits sum.splits fval.splits)


subsection \<open>Empty import and unknown ids\<close>

text \<open>
  Claim C6. With an empty list of entries \<open>executeRosterUpload\<close> issues no remote call and
  leaves the remote roster as it is, whatever the other inputs are, and so does the text
  import of an empty text; with the database handle set (the roster view is only rendered
  then, line 1278) it reports the validation message at once, before any confirmation.
\<close>

theorem empty_upload_rejected:
  "snd (executeRosterUpload [] errCount isConfirmed a d w) = w
   \<and> snd (handleTextUpload isConfirmed a (d\<lparr>newRosterText := []\<rparr>) w) = w
   \<and> (db a \<longrightarrow>
        fst (executeRosterUpload [] errCount isConfirmed a d w)
          = d\<lparr>uploadMessage := ''Error: No valid entries found. Format: ID, Name (one per line).''\<rparr>)"
proof -
  have "parseRosterData [] = \<lparr>rosterData = [], errorCount = 0\<rparr>" by code_simp
  then show ?thesis by (simp add: executeRosterUpload_def handleTextUpload_def Let_def)
qed

theorem empty_upload_rejected_witness:
  "db sample_app
   \<and> executeRosterUpload [] 0 True sample_app sample_display sample_world
       = (sample_display\<lparr>uploadMessage := ''Error: No valid entries found. Format: ID, Name (one per line).''\<rparr>,
          sample_world)"
proof -
  have h: "db sample_app" by (simp add: sample_app_def)
  show ?thesis
    using h empty_upload_rejected [of 0 True sample_app sample_display sample_world]
    by (simp add: prod_eq_iff)
qed

text \<open>
  Claim C7. When no entry of the roster snapshot has the scanned id, \<open>handleScanSuccess\<close>
  issues no remote call, leaves the store and the snapshot as they are and reports an error;
  with the database handle set (the scanner view is only rendered then, line 1282) the report
  is the not-found message naming the id.
\<close>

theorem unknown_id_no_write:
  assumes "\<forall>p \<in> set (roster a). map_of p ''id'' \<noteq> Some (Str scannedId)"
  shows "snd (handleScanSuccess scannedId a w) = w
       \<and> roster (fst (handleScanSuccess scannedId a w)) = roster a
       \<and> msg_type (scanMessage (fst (handleScanSuccess scannedId a w))) = ''error''
       \<and> (db a \<longrightarrow> scanMessage (fst (handleScanSuccess scannedId a w)) =
            \<lparr>msg_text = ''Error: QR Code ID '' @ [CHR 0x22] @ scannedId @ [CHR 0x22] @
                         '' does not match any attendee.'',
             msg_type = ''error''\<rparr>)"
proof -
  have "find (\<lambda>p. map_of p ''id'' = Some (Str scannedId)) (roster a) = None"
    using assms by (simp add: find_None_iff)
  then show ?thesis by (simp add: handleScanSuccess_def)
qed

theorem unknown_id_no_write_witness:
  "db sample_app
   \<and> handleScanSuccess ''RC-9999'' sample_app sample_world
       = (sample_app\<lparr>scanMessage :=
             \<lparr>msg_text = ''Error: QR Code ID '' @ [CHR 0x22] @ ''RC-9999'' @ [CHR 0x22] @
                          '' does not match any attendee.'',
              msg_type = ''error''\<rparr>\<rparr>,
          sample_world)"
proof -
  have h1: "\<forall>p \<in> set (roster sample_app). map_of p ''id'' \<noteq> Some (Str ''RC-9999'')"
    by (simp add: sample_app_def sample_docs_def)
  have h2: "db sample_app" by (simp add: sample_app_def)
  have ev: "handleScanSuccess ''RC-9999'' sample_app sample_world
       = (sample_app\<lparr>scanMessage :=
             \<lparr>msg_text = ''Error: QR Code ID '' @ [CHR 0x22] @ ''RC-9999'' @ [CHR 0x22] @
                          '' does not match any attendee.'',
              msg_type = ''error''\<rparr>\<rparr>,
          sample_world)"
    by code_simp
  show ?thesis
    using h2 ev unknown_id_no_write [OF h1, of sample_world]
    by simp
qed


subsection \<open>Debounce of decode events\<close>

text \<open>
  What the guard of the callback does: a decode is discarded when the render that created the
  callback had seen a last scan less than 2000 ms before it, and accepted otherwise; the
  decoded text plays no part in the decision.
\<close>

lemma onScanSuccess_inside_window:
  "lastScanTime seen = Some t \<Longrightarrow> t \<noteq> 0 \<Longrightarrow> now - t < 2000 \<Longrightarrow>
   onScanSuccess seen now txt prev = (prev, None)"
  by (simp add: onScanSuccess_def)

lemma onScanSuccess_outside_window:
  "lastScanTime seen = Some t \<Longrightarrow> 2000 \<le> now - t \<Longrightarrow>
   onScanSuccess seen now txt prev =
     (prev\<lparr>lastScanTime := Some now, scanCount := scanCount prev + 1, isPaused := True\<rparr>, Some txt)"
  by (simp add: onScanSuccess_def)

lemma onScanSuccess_ignores_text:
  "fst (onScanSuccess seen now p1 prev) = fst (onScanSuccess seen now p2 prev)
   \<and> (snd (onScanSuccess seen now p1 prev) = None) = (snd (onScanSuccess seen now p2 prev) = None)"
  by (simp add: onScanSuccess_def)

text \<open>
  The state the callback reads does not move with the decodes it accepts: once a registered
  callback has accepted a decode, it accepts every decode that comes later, however soon.
\<close>

lemma same_callback_accepts_again:
  "snd (onScanSuccess seen t1 p1 prev) = Some p1 \<Longrightarrow> t1 \<le> t2 \<Longrightarrow>
   snd (onScanSuccess seen t2 p2 prev') = Some p2"
  by (auto simp: onScanSuccess_def split: option.splits if_splits)

text \<open>
  Claim C2, at an input where the code departs from it. The callback registered on first
  mount receives two decodes of RC-1001 that are 100 ms apart (one frame at ten frames per
  second). Both are accepted: the second call still reads the \<open>lastScanTime\<close> of the render
  that created the callback, which is \<open>null\<close>. \<open>handleScanSuccess\<close> runs twice, two writes
  are issued, and the recorded last-scan time moves to the second decode.
\<close>

theorem debounce_same_callback:
  "snd (run_decodes (seen_scanner sample_registration)
          [(1700000000000, ''RC-1001''), (1700000000100, ''RC-1001'')] initial_scanner_state)
     = [''RC-1001'', ''RC-1001'']
   \<and> lastScanTime (fst (run_decodes (seen_scanner sample_registration)
          [(1700000000000, ''RC-1001''), (1700000000100, ''RC-1001'')] initial_scanner_state))
     = Some 1700000000100
   \<and> calls (snd (snd (decode_event sample_registration 1700000000100 ''RC-1001''
        (decode_event sample_registration 1700000000000 ''RC-1001''
           (initial_scanner_state, sample_app, sample_world)))))
     = [SetDoc ''RC-1001'' [(''status'', Str ''present''), (''lastScan'', ServerTimestamp)] True,
        SetDoc ''RC-1001'' [(''status'', Str ''present''), (''lastScan'', ServerTimestamp)] True]"
  by code_simp

text \<open>
  Claim C10, at an input where the code departs from it. The callback registered on first
  mount receives a decode of RC-1001 and, 100 ms later, a decode of RC-1002, another attendee.
  The second decode is accepted as well and RC-1002, present before, is written absent.
\<close>

theorem debounce_same_callback_other_attendee:
  "snd (run_decodes (seen_scanner sample_registration)
          [(1700000000000, ''RC-1001''), (1700000000100, ''RC-1002'')] initial_scanner_state)
     = [''RC-1001'', ''RC-1002'']
   \<and> doc_field sample_world ''RC-1002'' ''status'' = Some (Str ''present'')
   \<and> doc_field (snd (snd (decode_event sample_registration 1700000000100 ''RC-1002''
        (decode_event sample_registration 1700000000000 ''RC-1001''
           (initial_scanner_state, sample_app, sample_world))))) ''RC-1002'' ''status''
     = Some (Str ''absent'')
   \<and> calls (snd (snd (decode_event sample_registration 1700000000100 ''RC-1002''
        (decode_event sample_registration 1700000000000 ''RC-1001''
           (initial_scanner_state, sample_app, sample_world)))))
     = [SetDoc ''RC-1001'' [(''status'', Str ''present''), (''lastScan'', ServerTimestamp)] True,
        SetDoc ''RC-1002'' [(''status'', Str ''absent''), (''lastScan'', ServerTimestamp)] True]"
  by code_simp


subsection \<open>Status toggles\<close>

lemma issue_keeps: "issue c w = (r, w1) \<Longrightarrow> docs w1 = docs w \<and> serverTime w1 = serverTime w"
  by (auto simp: issue_def split: list.splits)

lemma setDoc_rejected:
  "setDoc docId data merge w = (Inl e, w1) \<Longrightarrow> docs w1 = docs w \<and> serverTime w1 = serverTime w"
  by (auto simp: setDoc_def split: prod.splits option.splits dest: issue_keeps)

lemma setDoc_resolved:
  "setDoc docId data merge w = (Inr u, w1) \<Longrightarrow>
   docs w1 = write_doc docId (resolve (serverTime w) data) merge (docs w) \<and> serverTime w1 = serverTime w"
  by (auto simp: setDoc_def split: prod.splits option.splits dest: issue_keeps)

text \<open>
  A retried \<open>setDoc\<close> that resolves in the end has applied its write exactly once: the
  rejected attempts before it changed nothing.
\<close>

lemma retry_from_setDoc:
  "retry_from (setDoc docId data merge) maxRetries delay i w = (Inr r, waits, w1) \<Longrightarrow> i < maxRetries \<Longrightarrow>
   docs w1 = write_doc docId (resolve (serverTime w) data) merge (docs w) \<and> serverTime w1 = serverTime w"
proof (induction "setDoc docId data merge" maxRetries delay i w arbitrary: waits rule: retry_from.induct)
  case (1 maxRetries delay i s)
  obtain x s1 where op: "setDoc docId data merge s = (x, s1)"
    by (cases "setDoc docId data merge s")
  show ?case
  proof (cases x)
    case (Inr u)
    with op "1.prems" show ?thesis
      by (subst (asm) retry_from.simps) (auto dest: setDoc_resolved)
  next
    case (Inl e)
    note keep = setDoc_rejected [OF op [unfolded Inl]]
    show ?thesis
    proof (cases "i + 1 = maxRetries")
      case True
      with op Inl "1.prems" show ?thesis
        by (subst (asm) retry_from.simps) auto
    next
      case False
      show ?thesis
      proof (cases "code e = ''permission-denied'' \<or> code e = ''unavailable''")
        case t: True
        obtain r' ws' s2 where
          rec: "retry_from (setDoc docId data merge) maxRetries delay (i + 1) s1 = (r', ws', s2)"
          by (cases "retry_from (setDoc docId data merge) maxRetries delay (i + 1) s1")
        from "1.prems" op Inl False t rec have "r' = Inr r" "s2 = w1"
          by (subst (asm) retry_from.simps; auto)+
        with rec have rec':
          "retry_from (setDoc docId data merge) maxRetries delay (i + 1) s1 = (Inr r, ws', w1)"
          by simp
        have "docs w1 = write_doc docId (resolve (serverTime s1) data) merge (docs s1)
              \<and> serverTime w1 = serverTime s1"
          using "1.hyps" [OF _ op [symmetric] Inl _ False rec'] "1.prems"(2) False t by auto
        with keep show ?thesis by simp
      next
        case f: False
        with op Inl False "1.prems" show ?thesis
          by (subst (asm) retry_from.simps) auto
      qed
    qed
  qed
qed

lemma toggle_write:
  "map_of (write_doc docId [(''status'', Str s), (''lastScan'', Time t)] True ds) docId
     = Some (case map_of ds docId of
               None \<Rightarrow> [(''status'', Str s), (''lastScan'', Time t)]
             | Some old \<Rightarrow> AList.update ''lastScan'' (Time t) (AList.update ''status'' (Str s) old))"
  by (simp add: write_doc_def merge_fields_def update_conv' split: option.splits)

lemma toggle_write_fields:
  "map_of (write_doc docId [(''status'', Str s), (''lastScan'', Time t)] True ds) docId = Some d \<Longrightarrow>
   map_of d ''status'' = Some (Str s) \<and> map_of d ''lastScan'' = Some (Time t)"
  by (auto simp: toggle_write update_conv' split: option.splits)

lemma resolve_toggle:
  "resolve t [(''status'', Str s), (''lastScan'', ServerTimestamp)]
     = [(''status'', Str s), (''lastScan'', Time t)]"
  by (simp add: resolve_def)

lemma mirror_find:
  "find (\<lambda>p. map_of p ''id'' = Some (Str docId)) (map (\<lambda>(i, data). AList.update ''id'' (Str i) data) ds)
     = map_option (AList.update ''id'' (Str docId)) (map_of ds docId)"
  by (induction ds) (auto simp: update_conv')

lemma toggle_via_app:
  "toggle_via ep attendeeId a w = (a1, w1) \<Longrightarrow>
   db a1 = db a \<and> roster a1 = roster a \<and> console a1 = console a"
  by (cases ep)
     (auto simp: toggle_via_def handleScanSuccess_def handleManualStatusToggle_def Let_def
           split: if_splits option.splits prod.splits sum.splits fval.splits)

lemma toggle_via_effect:
  assumes "db a"
    and "find (\<lambda>p. map_of p ''id'' = Some (Str attendeeId)) (roster a) = Some person"
    and "toggle_via ep attendeeId a w = (a1, w1)"
    and "msg_type (scanMessage a1) \<noteq> ''error''"
  shows "docs w1 = write_doc attendeeId
                     [(''status'', Str (toggled person)), (''lastScan'', Time (serverTime w))] True (docs w)"
proof -
  have pid: "map_of person ''id'' = Some (Str attendeeId)"
    using assms(2) by (auto simp: find_Some_iff)
  obtain r waits w' where ret:
    "retryOperation
       (setDoc attendeeId [(''status'', Str (toggled person)), (''lastScan'', ServerTimestamp)] True)
       3 500 w = (r, waits, w')"
    by (metis prod_cases3)
  have "\<exists>u. r = Inr u \<and> w1 = w'\<lparr>waited := waited w' @ waits\<rparr>"
    using assms pid ret
    by (cases ep; cases r)
       (auto simp: toggle_via_def handleScanSuccess_def handleManualStatusToggle_def Let_def)
  then obtain u where r: "r = Inr u" and w1: "w1 = w'\<lparr>waited := waited w' @ waits\<rparr>"
    by blast
  from ret r have "docs w' = write_doc attendeeId
      (resolve (serverTime w) [(''status'', Str (toggled person)), (''lastScan'', ServerTimestamp)])
      True (docs w)"
    unfolding retryOperation_def by (auto dest!: retry_from_setDoc)
  with w1 show ?thesis by (simp add: resolve_toggle)
qed

text \<open>
  Claim C1, as the code has it. Take an attendee of the roster snapshot whose stored status is
  \<open>present\<close> or \<open>absent\<close>, and two toggles of that attendee, each through either entry
  point and each reported as done (no failure message), with the database handle set (as it is
  whenever the views are rendered). If the snapshot entry shows the stored
  status when the first toggle starts, and the roster feed delivers the store's documents to
  the snapshot between the two toggles, the stored status is the opposite one after the first
  toggle and back at its original value after the second. Each toggle stores the server's time
  of the write as \<open>lastScan\<close>; so the stored \<open>lastScan\<close> strictly increases both times when
  the server's time does (it is beyond the stored \<open>lastScan\<close> at the first toggle, and later
  at the second toggle than at the first).
\<close>

theorem toggle_twice_restores_status:
  assumes ready: "db a"
    and found: "find (\<lambda>p. map_of p ''id'' = Some (Str attendeeId)) (roster a) = Some person"
    and stored: "doc_field w attendeeId ''status'' = Some (Str st)" "st = ''present'' \<or> st = ''absent''"
    and current: "map_of person ''status'' = doc_field w attendeeId ''status''"
    and last0: "lastScan_before (doc_field w attendeeId ''lastScan'') (Some (Time (serverTime w)))"
    and first: "toggle_via ep1 attendeeId a w = (a1, w1)" "msg_type (scanMessage a1) \<noteq> ''error''"
    and later: "docs w1' = docs w1" "serverTime w < serverTime w1'"
    and second: "toggle_via ep2 attendeeId (onSnapshot_next (docs w1) a1) w1' = (a2, w2)"
                "msg_type (scanMessage a2) \<noteq> ''error''"
  shows "doc_field w1 attendeeId ''status'' = Some (Str (if st = ''present'' then ''absent'' else ''present''))
       \<and> doc_field w1 attendeeId ''status'' \<noteq> doc_field w attendeeId ''status''
       \<and> doc_field w2 attendeeId ''status'' = doc_field w attendeeId ''status''
       \<and> doc_field w1 attendeeId ''lastScan'' = Some (Time (serverTime w))
       \<and> doc_field w2 attendeeId ''lastScan'' = Some (Time (serverTime w1'))
       \<and> lastScan_before (doc_field w attendeeId ''lastScan'') (doc_field w1 attendeeId ''lastScan'')
       \<and> lastScan_before (doc_field w1 attendeeId ''lastScan'') (doc_field w2 attendeeId ''lastScan'')"
proof -
  let ?flip = "if st = ''present'' then ''absent'' else ''present''"
  have st: "map_of person ''status'' = Some (Str st)"
    using stored(1) current by simp
  have tg: "toggled person = ?flip" using st stored(2) by (simp add: toggled_def)
  have d1: "docs w1 = write_doc attendeeId
                        [(''status'', Str ?flip), (''lastScan'', Time (serverTime w))] True (docs w)"
    using toggle_via_effect [OF ready found first] tg by simp
  then obtain doc1 where doc1: "map_of (docs w1) attendeeId = Some doc1"
    by (simp add: toggle_write)
  have f1: "map_of doc1 ''status'' = Some (Str ?flip)"
           "map_of doc1 ''lastScan'' = Some (Time (serverTime w))"
    using toggle_write_fields [OF doc1 [unfolded d1]] by simp_all
  let ?a1' = "onSnapshot_next (docs w1) a1"
  let ?person1 = "AList.update ''id'' (Str attendeeId) doc1"
  have ready1: "db ?a1'"
    using toggle_via_app [OF first(1)] ready by (simp add: onSnapshot_next_def Let_def)
  have found1: "find (\<lambda>p. map_of p ''id'' = Some (Str attendeeId)) (roster ?a1') = Some ?person1"
    by (simp add: onSnapshot_next_def Let_def mirror_find doc1)
  have tg1: "toggled ?person1 = st"
    using f1(1) stored(2) by (auto simp: toggled_def update_conv')
  have d2: "docs w2 = write_doc attendeeId
                        [(''status'', Str st), (''lastScan'', Time (serverTime w1'))] True (docs w1)"
    using toggle_via_effect [OF ready1 found1 second] tg1 later(1) by simp
  then obtain doc2 where doc2: "map_of (docs w2) attendeeId = Some doc2"
    by (simp add: toggle_write)
  have f2: "map_of doc2 ''status'' = Some (Str st)"
           "map_of doc2 ''lastScan'' = Some (Time (serverTime w1'))"
    using toggle_write_fields [OF doc2 [unfolded d2]] by simp_all
  have s1: "doc_field w1 attendeeId ''status'' = Some (Str ?flip)"
    and s2: "doc_field w2 attendeeId ''status'' = Some (Str st)"
    and l1: "doc_field w1 attendeeId ''lastScan'' = Some (Time (serverTime w))"
    and l2: "doc_field w2 attendeeId ''lastScan'' = Some (Time (serverTime w1'))"
    using doc1 f1 doc2 f2 by (simp_all add: doc_field_def)
  have differs: "doc_field w1 attendeeId ''status'' \<noteq> doc_field w attendeeId ''status''"
    using s1 stored by auto
  show ?thesis
    using s1 s2 l1 l2 differs stored(1) last0 later(2) by simp
qed

text \<open>
  The theorem at the sample roster, whose snapshot shows the store: RC-1001, absent and never
  scanned, is scanned at server time 1000; the feed delivers the store; the row is clicked at
  server time 4000.
\<close>

theorem toggle_twice_restores_status_witness:
  "doc_field sample_world ''RC-1001'' ''status'' = Some (Str ''absent'')
   \<and> doc_field (snd (toggle_via Scan ''RC-1001'' sample_app sample_world)) ''RC-1001'' ''status''
       = Some (Str ''present'')
   \<and> doc_field (snd (toggle_via Scan ''RC-1001'' sample_app sample_world)) ''RC-1001'' ''lastScan''
       = Some (Time 1000)
   \<and> doc_field
       (snd (toggle_via Manual ''RC-1001''
          (onSnapshot_next (docs (snd (toggle_via Scan ''RC-1001'' sample_app sample_world)))
             (fst (toggle_via Scan ''RC-1001'' sample_app sample_world)))
          ((snd (toggle_via Scan ''RC-1001'' sample_app sample_world))\<lparr>serverTime := 4000\<rparr>)))
       ''RC-1001'' ''status'' = Some (Str ''absent'')
   \<and> doc_field
       (snd (toggle_via Manual ''RC-1001''
          (onSnapshot_next (docs (snd (toggle_via Scan ''RC-1001'' sample_app sample_world)))
             (fst (toggle_via Scan ''RC-1001'' sample_app sample_world)))
          ((snd (toggle_via Scan ''RC-1001'' sample_app sample_world))\<lparr>serverTime := 4000\<rparr>)))
       ''RC-1001'' ''lastScan'' = Some (Time 4000)"
proof -
  let ?person = "[(''id'', Str ''RC-1001''), (''name'', Str ''Alfie Johnson''),
                  (''status'', Str ''absent''), (''lastScan'', Null), (''createdAt'', Time 100)]"
  let ?r1 = "toggle_via Scan ''RC-1001'' sample_app sample_world"
  let ?w1' = "(snd ?r1)\<lparr>serverTime := 4000\<rparr>"
  let ?r2 = "toggle_via Manual ''RC-1001'' (onSnapshot_next (docs (snd ?r1)) (fst ?r1)) ?w1'"
  have h1: "db sample_app" by code_simp
  have h2: "find (\<lambda>p. map_of p ''id'' = Some (Str ''RC-1001'')) (roster sample_app) = Some ?person"
    by code_simp
  have h3: "doc_field sample_world ''RC-1001'' ''status'' = Some (Str ''absent'')" by code_simp
  have h4: "''absent'' = ''present'' \<or> ''absent'' = ''absent''" by simp
  have h5: "map_of ?person ''status'' = doc_field sample_world ''RC-1001'' ''status''" by code_simp
  have h6: "lastScan_before (doc_field sample_world ''RC-1001'' ''lastScan'')
              (Some (Time (serverTime sample_world)))"
    by code_simp
  have h7: "?r1 = (fst ?r1, snd ?r1)" by simp
  have h8: "msg_type (scanMessage (fst ?r1)) \<noteq> ''error''" by code_simp
  have h9: "docs ?w1' = docs (snd ?r1)" by simp
  have h10: "serverTime sample_world < serverTime ?w1'" by code_simp
  have h11: "?r2 = (fst ?r2, snd ?r2)" by simp
  have h12: "msg_type (scanMessage (fst ?r2)) \<noteq> ''error''" by code_simp
  have t0: "serverTime sample_world = 1000" by (simp add: sample_world_def)
  show ?thesis
    using h3 t0 toggle_twice_restores_status [OF h1 h2 h3 h4 h5 h6 h7 h8 h9 h10 h11 h12] by simp
qed

text \<open>
  Without the delivery in between the claim fails: the row of RC-1001 (absent) is clicked
  twice before the feed has delivered the first write. Both clicks read the same snapshot
  entry, both write \<open>present\<close> and both report success, so the stored status after two
  toggles is not the original one.
\<close>

theorem toggle_twice_stale_snapshot:
  "doc_field sample_world ''RC-1001'' ''status'' = Some (Str ''absent'')
   \<and> msg_type (scanMessage (fst (toggle_via Manual ''RC-1001'' sample_app sample_world))) = ''warning''
   \<and> msg_type (scanMessage (fst (toggle_via Manual ''RC-1001''
        (fst (toggle_via Manual ''RC-1001'' sample_app sample_world))
        ((snd (toggle_via Manual ''RC-1001'' sample_app sample_world))\<lparr>serverTime := 4000\<rparr>)))) = ''warning''
   \<and> doc_field (snd (toggle_via Manual ''RC-1001''
        (fst (toggle_via Manual ''RC-1001'' sample_app sample_world))
        ((snd (toggle_via Manual ''RC-1001'' sample_app sample_world))\<lparr>serverTime := 4000\<rparr>)))
        ''RC-1001'' ''status'' = Some (Str ''present'')
   \<and> doc_field (snd (toggle_via Manual ''RC-1001''
        (fst (toggle_via Manual ''RC-1001'' sample_app sample_world))
        ((snd (toggle_via Manual ''RC-1001'' sample_app sample_world))\<lparr>serverTime := 4000\<rparr>)))
        ''RC-1001'' ''status'' \<noteq> doc_field sample_world ''RC-1001'' ''status''"
  by code_simp


subsection \<open>Bulk roster replacement\<close>

lemma issue_calls: "issue c w = (r, w1) \<Longrightarrow> calls w1 = calls w @ [c]"
  by (auto simp: issue_def split: list.splits)

lemma deleteDoc_calls: "deleteDoc i w = (r, w1) \<Longrightarrow> calls w1 = calls w @ [DeleteDoc i]"
  by (auto simp: deleteDoc_def split: prod.splits option.splits dest: issue_calls)

lemma setDoc_calls: "setDoc i data m w = (r, w1) \<Longrightarrow> calls w1 = calls w @ [SetDoc i data m]"
  by (auto simp: setDoc_def split: prod.splits option.splits dest: issue_calls)

lemma getDocs_calls: "getDocs w = (r, w1) \<Longrightarrow> calls w1 = calls w @ [GetDocs]"
  by (auto simp: getDocs_def split: prod.splits option.splits dest: issue_calls)

lemma getDocs_result: "getDocs w = (Inr existing, w1) \<Longrightarrow> existing = docs w"
  by (auto simp: getDocs_def issue_def split: prod.splits option.splits list.splits)

lemma issue_all_deletes:
  "issue_all (map (\<lambda>d. deleteDoc (fst d)) ds) w = (rs, w1) \<Longrightarrow>
   calls w1 = calls w @ map (\<lambda>d. DeleteDoc (fst d)) ds"
proof (induction ds arbitrary: w rs)
  case Nil
  then show ?case by simp
next
  case (Cons d ds)
  then show ?case
    by (auto split: prod.splits dest!: deleteDoc_calls)
qed

lemma issue_all_creates:
  "issue_all (map (\<lambda>person. setDoc (entry_id person) (new_doc person) False) ps) w = (rs, w1) \<Longrightarrow>
   calls w1 = calls w @ map (\<lambda>person. SetDoc (entry_id person) (new_doc person) False) ps"
proof (induction ps arbitrary: w rs)
  case Nil
  then show ?case by simp
next
  case (Cons p ps)
  then show ?case
    by (auto split: prod.splits dest!: setDoc_calls)
qed

text \<open>Retrying an operation that only looks at a settled outcome never changes the state.\<close>

lemma retry_from_settled:
  fixes x :: "error + 'a" and w :: 's
  shows "retry_from (\<lambda>s. (x, s)) maxRetries delay i w = (r, waits, w1) \<Longrightarrow> w1 = w"
proof (induction "\<lambda>s::'s. (x, s)" maxRetries delay i w arbitrary: r waits rule: retry_from.induct)
  case (1 maxRetries delay i s)
  show ?case
  proof (cases "i < maxRetries")
    case False
    with "1.prems" show ?thesis by (subst (asm) retry_from.simps) simp
  next
    case True
    show ?thesis
    proof (cases x)
      case (Inr v)
      with True "1.prems" show ?thesis by (subst (asm) retry_from.simps) simp
    next
      case (Inl e)
      show ?thesis
      proof (cases "(code e = ''permission-denied'' \<or> code e = ''unavailable'') \<and> i + 1 \<noteq> maxRetries")
        case False
        with True Inl "1.prems" show ?thesis
          by (subst (asm) retry_from.simps) (auto split: if_splits)
      next
        case go: True
        obtain r' ws' s2 where rec: "retry_from (\<lambda>s. (x, s)) maxRetries delay (i + 1) s = (r', ws', s2)"
          by (metis prod_cases3)
        have "w1 = s2"
          using True Inl go rec "1.prems" by (subst (asm) retry_from.simps) auto
        with rec have rec': "retry_from (\<lambda>s. (x, s)) maxRetries delay (i + 1) s = (r', ws', w1)"
          by simp
        show ?thesis
          using "1.hyps" [OF True refl Inl _ _ rec'] go by auto
      qed
    qed
  qed
qed

text \<open>
  The order of the remote calls, whatever fails: the read; then one delete for each document
  read, if the read succeeded; then, if every delete succeeded, one create for each new entry
  up to the first whose id is refused. No call is ever issued a second time.
\<close>

lemma upload_steps_calls:
  "calls (snd (upload_steps dataToUpload w)) = calls w @ [GetDocs]
   \<or> calls (snd (upload_steps dataToUpload w)) = calls w @ [GetDocs] @ map (\<lambda>d. DeleteDoc (fst d)) (docs w)
   \<or> calls (snd (upload_steps dataToUpload w)) =
        calls w @ [GetDocs] @ map (\<lambda>d. DeleteDoc (fst d)) (docs w)
          @ map (\<lambda>person. SetDoc (entry_id person) (new_doc person) False)
              (takeWhile (\<lambda>person. doc_path_ok (entry_id person)) dataToUpload)"
proof -
  let ?ok = "takeWhile (\<lambda>person. doc_path_ok (entry_id person)) dataToUpload"
  obtain g w1 where g: "getDocs w = (g, w1)" by (cases "getDocs w")
  note c1 = getDocs_calls [OF g]
  show ?thesis
  proof (cases g)
    case (Inl e)
    with g c1 show ?thesis by (simp add: upload_steps_def)
  next
    case (Inr existing)
    have ex: "existing = docs w" using g Inr by (auto dest: getDocs_result)
    obtain batchDelete w2 where
      del: "issue_all (map (\<lambda>d. deleteDoc (fst d)) (docs w)) w1 = (batchDelete, w2)"
      by (metis surj_pair)
    note c2 = issue_all_deletes [OF del]
    obtain r waits w3 where
      rd: "retryOperation (\<lambda>s. (promise_all batchDelete, s)) 3 500 w2 = (r, waits, w3)"
      by (metis prod_cases3)
    have w3: "w3 = w2" using rd unfolding retryOperation_def by (rule retry_from_settled)
    show ?thesis
    proof (cases r)
      case rl: (Inl e)
      with g Inr ex del rd w3 c1 c2 show ?thesis by (simp add: upload_steps_def)
    next
      case rr: (Inr u)
      obtain batchUpload w4 where up:
        "issue_all (map (\<lambda>person. setDoc (entry_id person) (new_doc person) False) ?ok)
           (w2\<lparr>waited := waited w2 @ waits\<rparr>) = (batchUpload, w4)"
        by (metis surj_pair)
      note c3 = issue_all_creates [OF up]
      obtain r' waits' w5 where
        ru: "retryOperation (\<lambda>s. (promise_all batchUpload, s)) 3 500 w4 = (r', waits', w5)"
        by (metis prod_cases3)
      have w5: "w5 = w4" using ru unfolding retryOperation_def by (rule retry_from_settled)
      from g Inr ex del rd w3 rr up ru w5 c1 c2 c3 show ?thesis
        by (cases r') (simp_all add: upload_steps_def)
    qed
  qed
qed

lemma deleteDoc_fault_free:
  "faults w = [] \<Longrightarrow>
   deleteDoc i w = (Inr (), w\<lparr>calls := calls w @ [DeleteDoc i], docs := AList.delete i (docs w)\<rparr>)"
  by (simp add: deleteDoc_def issue_def)

lemma setDoc_fault_free:
  "faults w = [] \<Longrightarrow>
   setDoc i data m w =
     (Inr (), w\<lparr>calls := calls w @ [SetDoc i data m],
                docs := write_doc i (resolve (serverTime w) data) m (docs w)\<rparr>)"
  by (simp add: setDoc_def issue_def)

lemma getDocs_fault_free:
  "faults w = [] \<Longrightarrow> getDocs w = (Inr (docs w), w\<lparr>calls := calls w @ [GetDocs]\<rparr>)"
  by (simp add: getDocs_def issue_def)

lemma issue_all_deletes_fault_free:
  "faults w = [] \<Longrightarrow>
   issue_all (map (\<lambda>d. deleteDoc (fst d)) ds) w =
     (map (\<lambda>d. Inr ()) ds,
      w\<lparr>calls := calls w @ map (\<lambda>d. DeleteDoc (fst d)) ds,
        docs := fold (\<lambda>d. AList.delete (fst d)) ds (docs w)\<rparr>)"
proof (induction ds arbitrary: w)
  case Nil
  then show ?case by simp
next
  case (Cons d ds)
  let ?w1 = "w\<lparr>calls := calls w @ [DeleteDoc (fst d)], docs := AList.delete (fst d) (docs w)\<rparr>"
  have "faults ?w1 = []" using Cons.prems by simp
  from Cons.IH [OF this] deleteDoc_fault_free [OF Cons.prems, of "fst d"]
  show ?case by simp
qed

lemma issue_all_creates_fault_free:
  "faults w = [] \<Longrightarrow>
   issue_all (map (\<lambda>person. setDoc (entry_id person) (new_doc person) False) ps) w =
     (map (\<lambda>person. Inr ()) ps,
      w\<lparr>calls := calls w @ map (\<lambda>person. SetDoc (entry_id person) (new_doc person) False) ps,
        docs := fold (\<lambda>person. write_doc (entry_id person) (resolve (serverTime w) (new_doc person)) False)
                  ps (docs w)\<rparr>)"
proof (induction ps arbitrary: w)
  case Nil
  then show ?case by simp
next
  case (Cons p ps)
  let ?w1 = "w\<lparr>calls := calls w @ [SetDoc (entry_id p) (new_doc p) False],
               docs := write_doc (entry_id p) (resolve (serverTime w) (new_doc p)) False (docs w)\<rparr>"
  have "faults ?w1 = []" using Cons.prems by simp
  from Cons.IH [OF this] setDoc_fault_free [OF Cons.prems, of "entry_id p" "new_doc p" False]
  show ?case by simp
qed

lemma promise_all_resolved: "promise_all (map (\<lambda>x. Inr ()) xs) = Inr (map (\<lambda>x. ()) xs)"
  by (induction xs) simp_all

lemma retryOperation_resolved: "retryOperation (\<lambda>s. (Inr v, s)) 3 500 w = (Inr (Some v), [], w)"
  by (simp add: retryOperation_def retry_from.simps)

lemma delete_every_key: "set xs \<subseteq> set ds \<Longrightarrow> fold (\<lambda>d. AList.delete (fst d)) ds xs = []"
proof (induction ds arbitrary: xs)
  case Nil
  then show ?case by simp
next
  case (Cons d ds)
  have "set (AList.delete (fst d) xs) \<subseteq> set ds"
    using Cons.prems by (auto simp: AList.delete_eq)
  from Cons.IH [OF this] show ?case by simp
qed

text \<open>
  When no remote call fails and the library accepts every id, a confirmed replacement by a
  non-empty list reads the roster, deletes every document read, then creates one document per
  entry (\<open>status\<close> absent, \<open>lastScan\<close> null, \<open>createdAt\<close> the server's time), and reports
  the number of entries.
\<close>

lemma upload_fault_free:
  assumes quiet: "faults w = []" and ready: "db a" and some: "dataToUpload \<noteq> []"
    and ids: "\<forall>person \<in> set dataToUpload. doc_path_ok (entry_id person)"
  shows "executeRosterUpload dataToUpload errCount True a d w =
     (d\<lparr>uploadMessage :=
          ''Successfully uploaded '' @ string_of_nat (length dataToUpload) @ '' members. '' @
          string_of_nat errCount @ '' invalid lines skipped.'',
        newRosterText := []\<rparr>,
      w\<lparr>calls := calls w @ [GetDocs] @ map (\<lambda>d. DeleteDoc (fst d)) (docs w)
                  @ map (\<lambda>person. SetDoc (entry_id person) (new_doc person) False) dataToUpload,
        docs := fold (\<lambda>person. write_doc (entry_id person) (resolve (serverTime w) (new_doc person)) False)
                  dataToUpload []\<rparr>)"
proof -
  let ?dels = "map (\<lambda>d. DeleteDoc (fst d)) (docs w)"
  let ?sets = "map (\<lambda>person. SetDoc (entry_id person) (new_doc person) False) dataToUpload"
  let ?w1 = "w\<lparr>calls := calls w @ [GetDocs]\<rparr>"
  let ?w2 = "w\<lparr>calls := calls w @ [GetDocs] @ ?dels, docs := []\<rparr>"
  let ?w3 = "?w2\<lparr>waited := waited ?w2 @ []\<rparr>"
  let ?w4 = "w\<lparr>calls := calls w @ [GetDocs] @ ?dels @ ?sets,
               docs := fold (\<lambda>person. write_doc (entry_id person) (resolve (serverTime w) (new_doc person)) False)
                         dataToUpload []\<rparr>"
  have all: "takeWhile (\<lambda>person. doc_path_ok (entry_id person)) dataToUpload = dataToUpload"
    using ids by (simp add: takeWhile_eq_all_conv)
  have none: "\<not> (\<exists>person \<in> set dataToUpload. \<not> doc_path_ok (entry_id person))"
    using ids by simp
  have s1: "getDocs w = (Inr (docs w), ?w1)"
    using quiet by (rule getDocs_fault_free)
  have s2: "issue_all (map (\<lambda>d. deleteDoc (fst d)) (docs w)) ?w1 = (map (\<lambda>d. Inr ()) (docs w), ?w2)"
    using issue_all_deletes_fault_free [of ?w1 "docs w"] quiet by (simp add: delete_every_key)
  have s3: "retryOperation (\<lambda>s. (promise_all (map (\<lambda>d. Inr ()) (docs w)), s)) 3 500 ?w2
              = (Inr (Some (map (\<lambda>d. ()) (docs w))), [], ?w2)"
    by (simp only: promise_all_resolved retryOperation_resolved)
  have s4: "issue_all (map (\<lambda>person. setDoc (entry_id person) (new_doc person) False) dataToUpload) ?w3
              = (map (\<lambda>person. Inr ()) dataToUpload, ?w4)"
    using issue_all_creates_fault_free [of ?w3 dataToUpload] quiet by simp
  have s5: "retryOperation (\<lambda>s. (promise_all (map (\<lambda>person. Inr ()) dataToUpload), s)) 3 500 ?w4
              = (Inr (Some (map (\<lambda>person. ()) dataToUpload)), [], ?w4)"
    by (simp only: promise_all_resolved retryOperation_resolved)
  have steps: "upload_steps dataToUpload w = (Inr (), ?w4)"
    unfolding upload_steps_def all s1 prod.case sum.case s2 s3 s4 s5 using none by simp
  show ?thesis
    using ready some by (simp add: executeRosterUpload_def steps)
qed

text \<open>
  An id the library refuses: with the roster RC-1001 and RC-1002 and no failing call, the
  replacement by the one entry \<open>RC/1\<close> deletes both documents, creates nothing and reports a
  critical error.
\<close>

lemma upload_refused_id:
  "executeRosterUpload [\<lparr>entry_id = ''RC/1'', entry_name = ''Dean Owens''\<rparr>] 0 True sample_app sample_display
      sample_world
     = (sample_display\<lparr>uploadMessage := ''Critical Error during upload. Check console for details.''\<rparr>,
        sample_world\<lparr>docs := [], calls := [GetDocs, DeleteDoc ''RC-1001'', DeleteDoc ''RC-1002'']\<rparr>)"
  by code_simp

text \<open>
  Claim C5, at an input where the code departs from it. The roster holds RC-1001 and RC-1002;
  the read succeeds and the delete of RC-1001 is rejected once with \<open>permission-denied\<close>, a
  transient error. The delete is not issued again: \<open>retryOperation\<close> waits 500 ms and
  1000 ms over the same rejected promise and gives up, the upload reports a critical error,
  RC-1001 is still in the store, RC-1002 is gone and nothing is created. The second equation
  is the toggle of a scan under the same fault: there the write is inside the retried
  operation, is issued a second time after 500 ms and succeeds.
\<close>

theorem upload_delete_not_retried:
  "executeRosterUpload [\<lparr>entry_id = ''RC-2001'', entry_name = ''Dean Owens''\<rparr>] 0 True sample_app sample_display
      (sample_world\<lparr>faults := [None, Some (FirestoreError ''permission-denied'')]\<rparr>)
     = (sample_display\<lparr>uploadMessage := ''Critical Error during upload. Check console for details.''\<rparr>,
        sample_world
          \<lparr>docs := [(''RC-1001'', [(''id'', Str ''RC-1001''), (''name'', Str ''Alfie Johnson''),
                      (''status'', Str ''absent''), (''lastScan'', Null), (''createdAt'', Time 100)])],
           faults := [],
           calls := [GetDocs, DeleteDoc ''RC-1001'', DeleteDoc ''RC-1002''],
           waited := [500, 1000]\<rparr>)
   \<and> calls (snd (handleScanSuccess ''RC-1001'' sample_app
               (sample_world\<lparr>faults := [Some (FirestoreError ''permission-denied'')]\<rparr>)))
     = [SetDoc ''RC-1001'' [(''status'', Str ''present''), (''lastScan'', ServerTimestamp)] True,
        SetDoc ''RC-1001'' [(''status'', Str ''present''), (''lastScan'', ServerTimestamp)] True]
   \<and> waited (snd (handleScanSuccess ''RC-1001'' sample_app
               (sample_world\<lparr>faults := [Some (FirestoreError ''permission-denied'')]\<rparr>))) = [500]
   \<and> msg_type (scanMessage (fst (handleScanSuccess ''RC-1001'' sample_app
               (sample_world\<lparr>faults := [Some (FirestoreError ''permission-denied'')]\<rparr>)))) = ''success''"
  by code_simp


subsection \<open>Stopping the scanner\<close>

lemma stopScanner_idempotent: "stopScanner r (stopScanner r sc) = stopScanner r sc"
  by (auto simp: stopScanner_def split: option.splits)

text \<open>
  From a state in which the scanner is flagged as running, whether paused or not and whatever
  the error message, a \<open>stop()\<close> that resolves ends the decode loop.
\<close>

lemma stopScanner_stops_running:
  "html5QrCodeRef sc = Some inst \<Longrightarrow> isRunning (scannerState sc) \<Longrightarrow> starting sc = None \<Longrightarrow>
   \<not> decode_loop_running (stopScanner None sc)"
  by (auto simp: stopScanner_def decode_loop_running_def)

text \<open>
  Claim C9, at an input where the code departs from it. The view is unmounted while
  \<open>initializeScanner\<close> is awaiting \<open>start()\<close> on first mount: \<open>html5QrCodeRef.current\<close>
  is still \<open>null\<close> and \<open>isRunning\<close> is false, so \<open>stopScanner\<close> does nothing; when
  \<open>start()\<close> then resolves, the decode loop runs although the view has been torn down.
\<close>

theorem unmount_during_initialization:
  "unmount None (initializeScanner_begin None initial_scanner) = initializeScanner_begin None initial_scanner
   \<and> isInitializing (scannerState (initializeScanner_begin None initial_scanner))
   \<and> decode_loop_running (start_resolved (unmount None (initializeScanner_begin None initial_scanner)))"
  by code_simp

end
